theory Spec2Isabelle
  imports Main "HOL-Library.Word"
begin

unbundle bit_operations_syntax

section \<open>The termios types and constants of open\_darwin.go\<close>

text \<open>
  The Go source declares \<open>cc_t\<close> as a byte and \<open>speed_t\<close>, \<open>tcflag_t\<close> as
  \<open>uint64\<close>. The constants of \<open>sys/termios.h\<close> are untyped Go constants that are only
  ever used at type \<open>tcflag_t\<close>.
\<close>

type_synonym cc_t = "8 word"
type_synonym speed_t = "64 word"
type_synonym tcflag_t = "64 word"
type_synonym uintptr = "64 word"

definition CS5 :: tcflag_t where "CS5 = 0x00000000"
definition CS6 :: tcflag_t where "CS6 = 0x00000100"
definition CS7 :: tcflag_t where "CS7 = 0x00000200"
definition CS8 :: tcflag_t where "CS8 = 0x00000300"
definition CLOCAL :: tcflag_t where "CLOCAL = 0x00008000"
definition CREAD :: tcflag_t where "CREAD = 0x00000800"
definition IGNPAR :: tcflag_t where "IGNPAR = 0x00000004"

definition NCCS :: nat where "NCCS = 20"

definition VMIN :: tcflag_t where "VMIN = 16"
definition VTIME :: tcflag_t where "VTIME = 17"

definition TIOCGETA :: uintptr where "TIOCGETA = 1078490131"
definition TIOCSETA :: uintptr where "TIOCSETA = 2152231956"

text \<open>
  The struct \<open>termios\<close>. The array \<open>[NCCS]cc_t\<close> is a list; every record the program
  builds starts from \<open>zero_termios\<close>, whose list has \<open>NCCS\<close> entries.
\<close>

record termios =
  c_iflag :: tcflag_t
  c_oflag :: tcflag_t
  c_cflag :: tcflag_t
  c_lflag :: tcflag_t
  c_cc :: "cc_t list"
  c_ispeed :: speed_t
  c_ospeed :: speed_t

text \<open>The value of \<open>var result termios\<close>: Go zero-initialises every field.\<close>

definition zero_termios :: termios where
  "zero_termios =
     \<lparr>c_iflag = 0, c_oflag = 0, c_cflag = 0, c_lflag = 0,
      c_cc = replicate NCCS 0, c_ispeed = 0, c_ospeed = 0\<rparr>"

text \<open>
  Modelled from the spec: the struct \<open>OpenOptions\<close> is declared in a file of the package
  that is not part of the sources at hand. The spec gives it three fields: \<open>PortName\<close>
  (a string), \<open>BaudRate\<close> (an integer) and \<open>DataBits\<close> (an integer).
\<close>

record OpenOptions =
  PortName :: string
  BaudRate :: int
  DataBits :: int

section \<open>Errors\<close>

text \<open>
  The values of Go's \<open>os.Error\<close> interface that occur here: \<open>os.NewError(s)\<close>, the
  \<open>SyscallError\<close> built by \<open>os.NewSyscallError\<close>, and the \<open>PathError\<close> that
  \<open>os.OpenFile\<close> returns. A nil error is \<open>None\<close> of \<open>Error option\<close>.
\<close>

datatype Error =
    NewError string
  | SyscallError string int
  | PathError string string Error

text \<open>\<open>os.NewSyscallError\<close> of the Go library: nil when \<open>errno\<close> is zero.\<close>

definition NewSyscallError :: "string \<Rightarrow> int \<Rightarrow> Error option" where
  "NewSyscallError syscall errno =
     (if errno = 0 then None else Some (SyscallError syscall errno))"

section \<open>The option translator\<close>

text \<open>
  \<open>convertOptions\<close>, statement by statement. The two \<open>switch\<close> statements have empty
  cases for the accepted baud rates (Go does not fall through), and a \<open>default\<close> that
  returns the error. \<open>speed_t(options.BaudRate)\<close> is the conversion to \<open>uint64\<close>.
\<close>

definition convertOptions :: "OpenOptions \<Rightarrow> Error + termios" where
  "convertOptions options =
     (let result = zero_termios;
          result = result\<lparr>c_cflag := c_cflag result OR CLOCAL\<rparr>;
          result = result\<lparr>c_cflag := c_cflag result OR CREAD\<rparr>;
          result = result\<lparr>c_iflag := c_iflag result OR IGNPAR\<rparr>;
          result = result\<lparr>c_cc := (c_cc result)[unat VTIME := 0]\<rparr>;
          result = result\<lparr>c_cc := (c_cc result)[unat VMIN := 1]\<rparr>
      in if BaudRate options \<notin> set [50, 75, 110, 134, 150, 200, 300, 600, 1200, 1800,
              2400, 4800, 7200, 9600, 14400, 19200, 28800, 38400, 57600, 76800, 115200,
              230400]
         then Inl (NewError ''Invalid setting for BaudRate.'')
         else
           let result = result\<lparr>c_ispeed := word_of_int (BaudRate options)\<rparr>;
               result = result\<lparr>c_ospeed := word_of_int (BaudRate options)\<rparr>
           in if DataBits options = 5 then Inr (result\<lparr>c_cflag := c_cflag result OR CS5\<rparr>)
              else if DataBits options = 6 then Inr (result\<lparr>c_cflag := c_cflag result OR CS6\<rparr>)
              else if DataBits options = 7 then Inr (result\<lparr>c_cflag := c_cflag result OR CS7\<rparr>)
              else if DataBits options = 8 then Inr (result\<lparr>c_cflag := c_cflag result OR CS8\<rparr>)
              else Inl (NewError ''Invalid setting for DataBits.''))"

section \<open>The operating system as seen by the opener\<close>

text \<open>
  The two entry points of the Go library through which the file reaches the operating
  system are \<open>os.OpenFile\<close> and \<open>syscall.Syscall\<close>. Their answers are not determined
  by the program, so they are parameters: a record \<open>os\<close> of two functions over an
  arbitrary world \<open>'w\<close>. Every call is also appended to a log, in the manner of a test
  double that records what was called; \<open>Close_call\<close> is the entry that closing a file
  would leave.

  The third argument of the \<open>ioctl\<close> is \<open>uintptr(unsafe.Pointer(src))\<close>; the model
  passes the record that the pointer refers to.
\<close>

datatype sys_arg = ArgWord uintptr | ArgTermios termios

datatype os_call =
    OpenFile_call string int nat
  | Syscall_call uintptr uintptr uintptr sys_arg
  | Close_call int

record 'w os =
  os_OpenFile :: "string \<Rightarrow> int \<Rightarrow> nat \<Rightarrow> 'w \<Rightarrow> (Error + int) \<times> 'w"
  os_Syscall ::
    "uintptr \<Rightarrow> uintptr \<Rightarrow> uintptr \<Rightarrow> sys_arg \<Rightarrow> 'w \<Rightarrow> (uintptr \<times> uintptr \<times> uintptr) \<times> 'w"

type_synonym 'w sys = "'w \<times> os_call list"

text \<open>
  \<open>os.OpenFile(name, flag, perm)\<close> answers an error or a file; a file is modelled by
  its descriptor, the value of \<open>file.Fd()\<close>.
\<close>

definition OpenFile ::
  "'w os \<Rightarrow> string \<Rightarrow> int \<Rightarrow> nat \<Rightarrow> 'w sys \<Rightarrow> (Error + int) \<times> 'w sys" where
  "OpenFile os name flag perm s =
     (let (r, w) = os_OpenFile os name flag perm (fst s)
      in (r, (w, snd s @ [OpenFile_call name flag perm])))"

text \<open>\<open>syscall.Syscall(trap, a1, a2, a3)\<close> answers \<open>(r1, r2, errno)\<close>.\<close>

definition Syscall ::
  "'w os \<Rightarrow> uintptr \<Rightarrow> uintptr \<Rightarrow> uintptr \<Rightarrow> sys_arg \<Rightarrow> 'w sys
     \<Rightarrow> (uintptr \<times> uintptr \<times> uintptr) \<times> 'w sys" where
  "Syscall os trap a1 a2 a3 s =
     (let (r, w) = os_Syscall os trap a1 a2 a3 (fst s)
      in (r, (w, snd s @ [Syscall_call trap a1 a2 a3])))"

text \<open>
  The constants of Go's \<open>os\<close> and \<open>syscall\<close> packages for Darwin that the file uses.
  \<open>perm_0600\<close> is the octal literal \<open>0600\<close>.
\<close>

definition O_RDWR :: int where "O_RDWR = 0x2"
definition O_NOCTTY :: int where "O_NOCTTY = 0x20000"
definition O_NONBLOCK :: int where "O_NONBLOCK = 0x4"
definition perm_0600 :: nat where "perm_0600 = 6 * 64"
definition SYS_IOCTL :: uintptr where "SYS_IOCTL = 54"
definition SYS_FCNTL :: uintptr where "SYS_FCNTL = 92"
definition F_SETFL :: uintptr where "F_SETFL = 4"

section \<open>The attribute applier\<close>

text \<open>
  \<open>setTermios\<close>. The conversions \<open>uintptr(fd)\<close> and \<open>int(errno)\<close> are between an
  \<open>int\<close> and a \<open>uintptr\<close> of the same width: \<open>word_of_int\<close> one way, the two's
  complement reading \<open>sint\<close> the other way. A nil result is \<open>None\<close>.
\<close>

definition setTermios :: "'w os \<Rightarrow> int \<Rightarrow> termios \<Rightarrow> 'w sys \<Rightarrow> Error option \<times> 'w sys" where
  "setTermios os fd src s =
     (let ((r1, _, errno), s) =
            Syscall os SYS_IOCTL (word_of_int fd) TIOCSETA (ArgTermios src) s
      in case NewSyscallError ''SYS_IOCTL'' (sint errno) of
           Some err \<Rightarrow> (Some err, s)
         | None \<Rightarrow>
             (if r1 \<noteq> 0 then (Some (NewError ''Unknown error from SYS_IOCTL.''), s)
              else (None, s)))"

section \<open>The port opener\<close>

text \<open>
  \<open>openInternal\<close>. The returned \<open>io.ReadWriteCloser\<close> is the opened file. The string
  given to \<open>os.NewSyscallError\<close> after the \<open>fcntl\<close> is \<open>SYS_IOCTL\<close> in the source.
\<close>

definition openInternal :: "'w os \<Rightarrow> OpenOptions \<Rightarrow> 'w sys \<Rightarrow> (Error + int) \<times> 'w sys" where
  "openInternal os options s =
     (let (r, s) =
            OpenFile os (PortName options) (O_RDWR OR O_NOCTTY OR O_NONBLOCK) perm_0600 s
      in case r of
           Inl err \<Rightarrow> (Inl err, s)
         | Inr file \<Rightarrow>
             (let ((r1, _, errno), s) =
                    Syscall os SYS_FCNTL (word_of_int file) F_SETFL (ArgWord 0) s
              in case NewSyscallError ''SYS_IOCTL'' (sint errno) of
                   Some err \<Rightarrow> (Inl err, s)
                 | None \<Rightarrow>
                     (if r1 \<noteq> 0 then (Inl (NewError ''Unknown error from SYS_FCNTL.''), s)
                      else
                        (case convertOptions options of
                           Inl err \<Rightarrow> (Inl err, s)
                         | Inr terminalOptions \<Rightarrow>
                             (let (err, s) = setTermios os file terminalOptions s
                              in (case err of
                                    Some e \<Rightarrow> (Inl e, s)
                                  | None \<Rightarrow> (Inr file, s)))))))"

section \<open>Vocabulary of the specification\<close>

text \<open>
  The enumerated sets of the specification, written after its words (not after the
  \<open>switch\<close> statements of the source, with which the theorems below compare them).
\<close>

definition spec_baud_rates :: "int set" where
  "spec_baud_rates = {50, 75, 110, 134, 150, 200, 300, 600, 1200, 1800, 2400, 4800, 7200,
     9600, 14400, 19200, 28800, 38400, 57600, 76800, 115200, 230400}"

definition spec_data_bits :: "int set" where
  "spec_data_bits = {5, 6, 7, 8}"

text \<open>The specification's table of size flags: 5 to CS5, 6 to CS6, 7 to CS7, 8 to CS8.\<close>

definition size_pattern :: "int \<Rightarrow> tcflag_t" where
  "size_pattern d = (if d = 5 then CS5 else if d = 6 then CS6 else if d = 7 then CS7 else CS8)"

text \<open>
  The bits of a control-flags value that the four size patterns occupy, and what it means
  for a flags value to contain a flag.
\<close>

definition size_field :: "tcflag_t \<Rightarrow> tcflag_t" where
  "size_field flags = flags AND (CS5 OR CS6 OR CS7 OR CS8)"

definition contains_flag :: "tcflag_t \<Rightarrow> tcflag_t \<Rightarrow> bool" where
  "contains_flag flags f = (flags AND f = f)"

text \<open>
  The log entries of the three calls \<open>openInternal\<close> and \<open>setTermios\<close> make: the device
  open, the descriptor-flag call that clears \<open>O_NONBLOCK\<close>, and the attribute-set call.
\<close>

definition open_call :: "OpenOptions \<Rightarrow> os_call" where
  "open_call options =
     OpenFile_call (PortName options) (O_RDWR OR O_NOCTTY OR O_NONBLOCK) perm_0600"

definition fcntl_call :: "int \<Rightarrow> os_call" where
  "fcntl_call fd = Syscall_call SYS_FCNTL (word_of_int fd) F_SETFL (ArgWord 0)"

definition ioctl_call :: "int \<Rightarrow> termios \<Rightarrow> os_call" where
  "ioctl_call fd src = Syscall_call SYS_IOCTL (word_of_int fd) TIOCSETA (ArgTermios src)"

section \<open>Concrete inputs\<close>

text \<open>
  A simulated operating system with fixed answers: one for the open, one for the
  \<open>fcntl\<close>, one for any other system call. Its world carries no information.
\<close>

definition test_double ::
  "Error + int \<Rightarrow> uintptr \<times> uintptr \<times> uintptr \<Rightarrow> uintptr \<times> uintptr \<times> uintptr \<Rightarrow> unit os" where
  "test_double opened fcntl ioctl =
     \<lparr>os_OpenFile = (\<lambda>name flag perm w. (opened, w)),
      os_Syscall = (\<lambda>trap a1 a2 a3 w. (if trap = SYS_FCNTL then fcntl else ioctl, w))\<rparr>"

text \<open>
  The configurations of the specification's end-to-end scenarios A, B and C, and one
  in which both the baud rate and the data bits are outside their sets.
\<close>

definition scenario_A :: OpenOptions where
  "scenario_A = \<lparr>PortName = ''/dev/tty.usbserial'', BaudRate = 9600, DataBits = 8\<rparr>"

definition scenario_B :: OpenOptions where
  "scenario_B = \<lparr>PortName = ''/dev/tty.usbserial'', BaudRate = 9601, DataBits = 8\<rparr>"

definition scenario_C :: OpenOptions where
  "scenario_C = \<lparr>PortName = ''/dev/tty.usbserial'', BaudRate = 19200, DataBits = 9\<rparr>"

definition scenario_BC :: OpenOptions where
  "scenario_BC = \<lparr>PortName = ''/dev/tty.usbserial'', BaudRate = 9601, DataBits = 9\<rparr>"

section \<open>Facts about the translator and the opener\<close>

lemma baud_range: "b \<in> spec_baud_rates \<Longrightarrow> uint (word_of_int b :: 64 word) = b"
  unfolding spec_baud_rates_def by (elim insertE emptyE) simp_all

lemma convertOptions_Inr:
  "convertOptions options = Inr r \<Longrightarrow>
     BaudRate options \<in> spec_baud_rates \<and> DataBits options \<in> spec_data_bits \<and>
     r = \<lparr>c_iflag = IGNPAR, c_oflag = 0,
          c_cflag = (CLOCAL OR CREAD) OR size_pattern (DataBits options),
          c_lflag = 0, c_cc = (replicate NCCS 0)[unat VTIME := 0, unat VMIN := 1],
          c_ispeed = word_of_int (BaudRate options),
          c_ospeed = word_of_int (BaudRate options)\<rparr>"
  unfolding convertOptions_def zero_termios_def spec_baud_rates_def spec_data_bits_def Let_def
    size_pattern_def
  by (auto split: if_splits)

lemma convertOptions_bad_baud:
  "BaudRate options \<notin> spec_baud_rates \<Longrightarrow>
     convertOptions options = Inl (NewError ''Invalid setting for BaudRate.'')"
  unfolding convertOptions_def spec_baud_rates_def Let_def by simp

lemma convertOptions_bad_bits:
  "BaudRate options \<in> spec_baud_rates \<Longrightarrow> DataBits options \<notin> spec_data_bits \<Longrightarrow>
     convertOptions options = Inl (NewError ''Invalid setting for DataBits.'')"
  unfolding convertOptions_def spec_baud_rates_def spec_data_bits_def Let_def by simp

lemma convertOptions_good:
  "BaudRate options \<in> spec_baud_rates \<Longrightarrow> DataBits options \<in> spec_data_bits \<Longrightarrow>
     \<exists>r. convertOptions options = Inr r"
  unfolding convertOptions_def spec_baud_rates_def spec_data_bits_def Let_def by auto

lemma cc_lookup:
  "(replicate NCCS (0::cc_t))[unat VTIME := 0, unat VMIN := 1] ! i =
     (if i = unat VMIN then 1 else 0)"
  if "i < NCCS"
  using that by (simp add: NCCS_def VMIN_def VTIME_def nth_list_update)

lemma size_patterns: 
  "size_field ((CLOCAL OR CREAD) OR CS5) = CS5"
  "size_field ((CLOCAL OR CREAD) OR CS6) = CS6"
  "size_field ((CLOCAL OR CREAD) OR CS7) = CS7"
  "size_field ((CLOCAL OR CREAD) OR CS8) = CS8"
  by (simp_all add: size_field_def CLOCAL_def CREAD_def CS5_def CS6_def CS7_def CS8_def)

lemma distinct_patterns: "distinct [CS5, CS6, CS7, CS8]"
  by (simp add: CS5_def CS6_def CS7_def CS8_def)

lemma fixed_flags:
  "contains_flag ((CLOCAL OR CREAD) OR x) CLOCAL"
  "contains_flag ((CLOCAL OR CREAD) OR x) CREAD"
  "contains_flag IGNPAR IGNPAR"
  unfolding contains_flag_def
  by (auto simp: bit_eq_iff bit_and_iff bit_or_iff)

lemma setTermios_run:
  assumes "os_Syscall os SYS_IOCTL (word_of_int fd) TIOCSETA (ArgTermios src) (fst s)
             = ((r1, r2, errno), w)"
  shows "setTermios os fd src s =
           (if errno \<noteq> 0 then Some (SyscallError ''SYS_IOCTL'' (sint errno))
            else if r1 \<noteq> 0 then Some (NewError ''Unknown error from SYS_IOCTL.'')
            else None,
            (w, snd s @ [ioctl_call fd src]))"
  using assms
  by (simp add: setTermios_def Syscall_def NewSyscallError_def ioctl_call_def signed_eq_0_iff)

lemma setTermios_log:
  "snd (snd (setTermios os fd src s)) = snd s @ [ioctl_call fd src]"
proof -
  obtain r1 r2 errno w where
    "os_Syscall os SYS_IOCTL (word_of_int fd) TIOCSETA (ArgTermios src) (fst s)
       = ((r1, r2, errno), w)"
    by (metis prod.exhaust)
  then show ?thesis by (simp add: setTermios_run)
qed

lemma openInternal_not_opened:
  assumes "os_OpenFile os (PortName options) (O_RDWR OR O_NOCTTY OR O_NONBLOCK) perm_0600 w
             = (Inl err, w1)"
  shows "openInternal os options (w, log) = (Inl err, (w1, log @ [open_call options]))"
  using assms by (simp add: openInternal_def OpenFile_def open_call_def)

lemma openInternal_opened:
  assumes "os_OpenFile os (PortName options) (O_RDWR OR O_NOCTTY OR O_NONBLOCK) perm_0600 w
             = (Inr fd, w1)"
    and "os_Syscall os SYS_FCNTL (word_of_int fd) F_SETFL (ArgWord 0) w1 = ((r1, r2, errno), w2)"
  shows "openInternal os options (w, log) =
           (if errno \<noteq> 0
            then (Inl (SyscallError ''SYS_IOCTL'' (sint errno)),
                  (w2, log @ [open_call options, fcntl_call fd]))
            else if r1 \<noteq> 0
            then (Inl (NewError ''Unknown error from SYS_FCNTL.''),
                  (w2, log @ [open_call options, fcntl_call fd]))
            else
              (case convertOptions options of
                 Inl err \<Rightarrow> (Inl err, (w2, log @ [open_call options, fcntl_call fd]))
               | Inr t \<Rightarrow>
                   (case setTermios os fd t (w2, log @ [open_call options, fcntl_call fd]) of
                      (Some e, s) \<Rightarrow> (Inl e, s)
                    | (None, s) \<Rightarrow> (Inr fd, s))))"
  using assms
  by (simp add: openInternal_def OpenFile_def Syscall_def NewSyscallError_def
      open_call_def fcntl_call_def signed_eq_0_iff
      split: sum.split option.split prod.split)

lemma scenario_simps:
  "BaudRate scenario_A = 9600" "DataBits scenario_A = 8"
  "BaudRate scenario_B = 9601" "DataBits scenario_B = 8"
  "BaudRate scenario_C = 19200" "DataBits scenario_C = 9"
  "BaudRate scenario_BC = 9601" "DataBits scenario_BC = 9"
  by (simp_all add: scenario_A_def scenario_B_def scenario_C_def scenario_BC_def)

lemma scenario_A_accepted:
  "convertOptions scenario_A = Inr (projr (convertOptions scenario_A))"
  using convertOptions_good [of scenario_A]
  by (auto simp: scenario_simps spec_baud_rates_def spec_data_bits_def)

lemma test_double_simps:
  "os_OpenFile (test_double opened fcntl ioctl) name flag perm w = (opened, w)"
  "os_Syscall (test_double opened fcntl ioctl) SYS_FCNTL a1 a2 a3 w = (fcntl, w)"
  "os_Syscall (test_double opened fcntl ioctl) SYS_IOCTL a1 a2 a3 w = (ioctl, w)"
  by (simp_all add: test_double_def SYS_FCNTL_def SYS_IOCTL_def)

lemma call_distinct:
  "fcntl_call fd \<noteq> Syscall_call SYS_IOCTL a1 a2 a3"
  "open_call options \<noteq> Syscall_call trap a1 a2 a3"
  "open_call options \<noteq> Close_call d"
  "fcntl_call fd \<noteq> Close_call d"
  "ioctl_call fd t \<noteq> Close_call d"
  "Syscall_call SYS_IOCTL a1 a2 a3 \<noteq> fcntl_call fd"
  "Syscall_call trap a1 a2 a3 \<noteq> open_call options"
  "Close_call d \<noteq> open_call options"
  "Close_call d \<noteq> fcntl_call fd"
  "Close_call d \<noteq> ioctl_call fd t"
  by (simp_all add: fcntl_call_def open_call_def ioctl_call_def SYS_FCNTL_def SYS_IOCTL_def)

lemma syscall_answer:
  obtains r1 r2 errno w2 where "os_Syscall os trap a1 a2 a3 w = ((r1, r2, errno), w2)"
  by (cases "os_Syscall os trap a1 a2 a3 w") auto

section \<open>The claims\<close>

text \<open>
  Claim C3. For every baud rate of the enumerated set, with data bits in \<open>{5, 6, 7, 8}\<close>,
  \<open>convertOptions\<close> succeeds and both speed fields of the record hold exactly that rate;
  for every baud rate outside the set it fails with the error
  \<open>Invalid setting for BaudRate.\<close> and produces no record.
\<close>

theorem convertOptions_BaudRate:
  "(BaudRate options \<in> spec_baud_rates \<and> DataBits options \<in> spec_data_bits \<longrightarrow>
      (\<exists>r. convertOptions options = Inr r \<and>
           uint (c_ispeed r) = BaudRate options \<and> uint (c_ospeed r) = BaudRate options))
   \<and> (BaudRate options \<notin> spec_baud_rates \<longrightarrow>
        convertOptions options = Inl (NewError ''Invalid setting for BaudRate.''))"
proof (intro conjI impI)
  assume v: "BaudRate options \<in> spec_baud_rates \<and> DataBits options \<in> spec_data_bits"
  then obtain r where r: "convertOptions options = Inr r"
    using convertOptions_good by blast
  from convertOptions_Inr [OF r] v have
    "uint (c_ispeed r) = BaudRate options" "uint (c_ospeed r) = BaudRate options"
    by (simp_all add: baud_range)
  with r show "\<exists>r. convertOptions options = Inr r \<and>
           uint (c_ispeed r) = BaudRate options \<and> uint (c_ospeed r) = BaudRate options"
    by blast
next
  assume "BaudRate options \<notin> spec_baud_rates"
  then show "convertOptions options = Inl (NewError ''Invalid setting for BaudRate.'')"
    by (rule convertOptions_bad_baud)
qed

theorem convertOptions_BaudRate_witness:
  "BaudRate scenario_A \<in> spec_baud_rates \<and> DataBits scenario_A \<in> spec_data_bits
   \<and> (\<exists>r. convertOptions scenario_A = Inr r \<and> uint (c_ispeed r) = 9600 \<and> uint (c_ospeed r) = 9600)
   \<and> BaudRate scenario_B \<notin> spec_baud_rates
   \<and> convertOptions scenario_B = Inl (NewError ''Invalid setting for BaudRate.'')"
  using convertOptions_BaudRate [of scenario_A] convertOptions_BaudRate [of scenario_B]
  by (simp add: scenario_simps spec_baud_rates_def spec_data_bits_def)

text \<open>
  Claim C4, as stated, at a configuration whose data bits are outside \<open>{5, 6, 7, 8}\<close>
  and whose baud rate is outside its set too: \<open>convertOptions\<close> does not fail with the
  data-bits error, because the baud rate is checked first. Likewise with data bits 8 and
  that baud rate no size pattern is set, since no record is produced.
\<close>

theorem convertOptions_DataBits_counterexample:
  "DataBits scenario_BC \<notin> spec_data_bits
   \<and> convertOptions scenario_BC \<noteq> Inl (NewError ''Invalid setting for DataBits.'')
   \<and> convertOptions scenario_BC = Inl (NewError ''Invalid setting for BaudRate.'')
   \<and> DataBits scenario_B \<in> spec_data_bits
   \<and> convertOptions scenario_B = Inl (NewError ''Invalid setting for BaudRate.'')"
  by (simp add: convertOptions_bad_baud scenario_simps spec_baud_rates_def spec_data_bits_def)

text \<open>
  Claim C4, amended. The four size patterns are pairwise distinct. For every configuration
  whose baud rate is in the enumerated set: with data bits in \<open>{5, 6, 7, 8}\<close>,
  \<open>convertOptions\<close> succeeds, the control flags are the two fixed flags OR-ed with the
  pattern of that size, and the size bits of the control flags equal that pattern and none
  of the other three; with data bits outside \<open>{5, 6, 7, 8}\<close> it fails with the error
  \<open>Invalid setting for DataBits.\<close> With a baud rate outside the set it fails with the
  baud-rate error whatever the data bits are.
\<close>

theorem convertOptions_DataBits:
  "distinct [CS5, CS6, CS7, CS8]
   \<and> size_pattern 5 = CS5 \<and> size_pattern 6 = CS6 \<and> size_pattern 7 = CS7 \<and> size_pattern 8 = CS8
   \<and> (BaudRate options \<in> spec_baud_rates \<and> DataBits options \<in> spec_data_bits \<longrightarrow>
        (\<exists>r. convertOptions options = Inr r
           \<and> c_cflag r = (CLOCAL OR CREAD) OR size_pattern (DataBits options)
           \<and> size_field (c_cflag r) = size_pattern (DataBits options)
           \<and> (\<forall>p \<in> {CS5, CS6, CS7, CS8}.
                 size_field (c_cflag r) = p \<longleftrightarrow> p = size_pattern (DataBits options))))
   \<and> (BaudRate options \<in> spec_baud_rates \<and> DataBits options \<notin> spec_data_bits \<longrightarrow>
        convertOptions options = Inl (NewError ''Invalid setting for DataBits.''))
   \<and> (BaudRate options \<notin> spec_baud_rates \<longrightarrow>
        convertOptions options = Inl (NewError ''Invalid setting for BaudRate.''))"
proof -
  have pats: "size_pattern 5 = CS5 \<and> size_pattern 6 = CS6 \<and> size_pattern 7 = CS7
      \<and> size_pattern 8 = CS8"
    by (simp add: size_pattern_def)
  have good: "\<exists>r. convertOptions options = Inr r
           \<and> c_cflag r = (CLOCAL OR CREAD) OR size_pattern (DataBits options)
           \<and> size_field (c_cflag r) = size_pattern (DataBits options)
           \<and> (\<forall>p \<in> {CS5, CS6, CS7, CS8}.
                 size_field (c_cflag r) = p \<longleftrightarrow> p = size_pattern (DataBits options))"
    if v: "BaudRate options \<in> spec_baud_rates \<and> DataBits options \<in> spec_data_bits"
  proof -
    from v obtain r where r: "convertOptions options = Inr r"
      using convertOptions_good by blast
    have cflag: "c_cflag r = (CLOCAL OR CREAD) OR size_pattern (DataBits options)"
      using convertOptions_Inr [OF r] by simp
    have "DataBits options = 5 \<or> DataBits options = 6 \<or> DataBits options = 7
        \<or> DataBits options = 8"
      using v by (simp add: spec_data_bits_def)
    then have field: "size_field (c_cflag r) = size_pattern (DataBits options)"
      unfolding cflag by (auto simp: size_pattern_def size_patterns)
    show ?thesis using r cflag field by auto
  qed
  show ?thesis
    using distinct_patterns pats good convertOptions_bad_bits convertOptions_bad_baud
    by blast
qed

theorem convertOptions_DataBits_witness:
  "BaudRate scenario_A \<in> spec_baud_rates \<and> DataBits scenario_A \<in> spec_data_bits
   \<and> (\<exists>r. convertOptions scenario_A = Inr r \<and> c_cflag r = (CLOCAL OR CREAD) OR CS8
           \<and> size_field (c_cflag r) = CS8
           \<and> size_field (c_cflag r) \<noteq> CS5 \<and> size_field (c_cflag r) \<noteq> CS6
           \<and> size_field (c_cflag r) \<noteq> CS7)
   \<and> BaudRate scenario_C \<in> spec_baud_rates \<and> DataBits scenario_C \<notin> spec_data_bits
   \<and> convertOptions scenario_C = Inl (NewError ''Invalid setting for DataBits.'')
   \<and> BaudRate scenario_BC \<notin> spec_baud_rates
   \<and> convertOptions scenario_BC = Inl (NewError ''Invalid setting for BaudRate.'')"
  using convertOptions_DataBits [of scenario_A] convertOptions_DataBits [of scenario_C]
    convertOptions_DataBits [of scenario_BC]
  by (auto simp add: scenario_simps spec_baud_rates_def spec_data_bits_def)

text \<open>
  Claim C5, as stated, at scenario A: the record is produced, its "minimum bytes" control
  character (index \<open>VMIN\<close>) is 1, not 0, and its "inter-byte timeout" control character
  (index \<open>VTIME\<close>) is 0, not 1.
\<close>

theorem control_chars_swapped_counterexample:
  "\<not> isl (convertOptions scenario_A)
   \<and> c_cc (projr (convertOptions scenario_A)) ! unat VMIN \<noteq> 0
   \<and> c_cc (projr (convertOptions scenario_A)) ! unat VTIME \<noteq> 1
   \<and> c_cc (projr (convertOptions scenario_A)) ! unat VMIN = 1
   \<and> c_cc (projr (convertOptions scenario_A)) ! unat VTIME = 0"
proof -
  obtain r where r: "convertOptions scenario_A = Inr r"
    using convertOptions_good [of scenario_A]
    by (auto simp: scenario_simps spec_baud_rates_def spec_data_bits_def)
  have "c_cc r ! unat VMIN = 1" "c_cc r ! unat VTIME = 0"
    using convertOptions_Inr [OF r] by (simp_all add: cc_lookup NCCS_def VMIN_def VTIME_def)
  with r show ?thesis by simp
qed

text \<open>
  Claim C5, amended. For every configuration accepted by \<open>convertOptions\<close>, the
  "minimum bytes" control character of the produced record equals 1 and the "inter-byte
  timeout" control character equals 0, whatever the other configuration values are.
\<close>

theorem control_chars_fixed_policy:
  "convertOptions options = Inr r \<Longrightarrow> c_cc r ! unat VMIN = 1 \<and> c_cc r ! unat VTIME = 0"
  using convertOptions_Inr [of options r]
  by (simp add: cc_lookup NCCS_def VMIN_def VTIME_def)

theorem control_chars_fixed_policy_witness:
  "convertOptions scenario_A = Inr (projr (convertOptions scenario_A))
   \<and> c_cc (projr (convertOptions scenario_A)) ! unat VMIN = 1
   \<and> c_cc (projr (convertOptions scenario_A)) ! unat VTIME = 0"
  using control_chars_fixed_policy [OF scenario_A_accepted] scenario_A_accepted by simp

text \<open>
  Claim C6. For every configuration accepted by \<open>convertOptions\<close>, the control character
  at index \<open>VTIME\<close> (the inter-byte timeout) of the produced record is 0 and the one at
  index \<open>VMIN\<close> (the minimum number of bytes per read) is 1, whatever the other
  configuration values are.
\<close>

theorem convertOptions_VTIME_VMIN:
  assumes "convertOptions options = Inr r"
  shows "c_cc r ! unat VTIME = 0 \<and> c_cc r ! unat VMIN = 1"
proof -
  have cc: "c_cc r = (replicate NCCS 0)[unat VTIME := 0, unat VMIN := 1]"
    using convertOptions_Inr [OF assms] by simp
  have "unat VTIME < NCCS" "unat VMIN < NCCS" "unat VTIME \<noteq> unat VMIN"
    by (simp_all add: NCCS_def VMIN_def VTIME_def)
  then show ?thesis unfolding cc by (simp add: cc_lookup)
qed

theorem convertOptions_VTIME_VMIN_witness:
  "convertOptions scenario_A = Inr (projr (convertOptions scenario_A))
   \<and> c_cc (projr (convertOptions scenario_A)) ! unat VTIME = 0
   \<and> c_cc (projr (convertOptions scenario_A)) ! unat VMIN = 1"
proof -
  note h = scenario_A_accepted
  from convertOptions_VTIME_VMIN [OF h] h show ?thesis by simp
qed

text \<open>
  Claim C7. For every configuration accepted by \<open>convertOptions\<close>, the control flags of
  the produced record contain \<open>CLOCAL\<close> and \<open>CREAD\<close> and its input flags contain
  \<open>IGNPAR\<close>. In particular the configuration with baud rate 9600 and 8 data bits, for any
  port name, yields a record whose control flags are \<open>CS8\<close>, \<open>CLOCAL\<close> and \<open>CREAD\<close>
  OR-ed together (so they contain each of the three), whose two speed fields are 9600,
  whose timeout character is 0 and whose minimum-bytes character is 1.
\<close>

theorem convertOptions_fixed_flags:
  "(convertOptions options = Inr r \<longrightarrow>
      contains_flag (c_cflag r) CLOCAL \<and> contains_flag (c_cflag r) CREAD
      \<and> contains_flag (c_iflag r) IGNPAR)
   \<and> (\<exists>a. convertOptions \<lparr>PortName = name, BaudRate = 9600, DataBits = 8\<rparr> = Inr a
        \<and> c_cflag a = CS8 OR CLOCAL OR CREAD
        \<and> contains_flag (c_cflag a) CS8 \<and> contains_flag (c_cflag a) CLOCAL
        \<and> contains_flag (c_cflag a) CREAD
        \<and> c_ispeed a = 9600 \<and> c_ospeed a = 9600
        \<and> c_cc a ! unat VTIME = 0 \<and> c_cc a ! unat VMIN = 1)"
proof (intro conjI impI)
  assume r: "convertOptions options = Inr r"
  show "contains_flag (c_cflag r) CLOCAL" "contains_flag (c_cflag r) CREAD"
    "contains_flag (c_iflag r) IGNPAR"
    using convertOptions_Inr [OF r] by (simp_all add: fixed_flags)
next
  let ?A = "\<lparr>PortName = name, BaudRate = 9600, DataBits = 8\<rparr>"
  obtain a where a: "convertOptions ?A = Inr a"
    using convertOptions_good [of ?A] by (auto simp: spec_baud_rates_def spec_data_bits_def)
  note shape = convertOptions_Inr [OF a]
  have flags: "c_cflag a = CS8 OR CLOCAL OR CREAD"
    using shape by (simp add: size_pattern_def word_bw_comms word_bw_lcs)
  have cs8: "contains_flag (c_cflag a) CS8"
    unfolding flags contains_flag_def by (auto simp: bit_eq_iff bit_and_iff bit_or_iff)
  have fixed: "contains_flag (c_cflag a) CLOCAL" "contains_flag (c_cflag a) CREAD"
    using shape by (simp_all add: fixed_flags)
  have speeds: "c_ispeed a = 9600" "c_ospeed a = 9600"
    using shape by simp_all
  have chars: "c_cc a ! unat VTIME = 0" "c_cc a ! unat VMIN = 1"
    using shape by (simp_all add: cc_lookup NCCS_def VMIN_def VTIME_def)
  show "\<exists>a. convertOptions ?A = Inr a
        \<and> c_cflag a = CS8 OR CLOCAL OR CREAD
        \<and> contains_flag (c_cflag a) CS8 \<and> contains_flag (c_cflag a) CLOCAL
        \<and> contains_flag (c_cflag a) CREAD
        \<and> c_ispeed a = 9600 \<and> c_ospeed a = 9600
        \<and> c_cc a ! unat VTIME = 0 \<and> c_cc a ! unat VMIN = 1"
    using a flags cs8 fixed speeds chars by blast
qed

theorem convertOptions_fixed_flags_witness:
  "convertOptions scenario_A = Inr (projr (convertOptions scenario_A))
   \<and> contains_flag (c_cflag (projr (convertOptions scenario_A))) CLOCAL
   \<and> contains_flag (c_cflag (projr (convertOptions scenario_A))) CREAD
   \<and> contains_flag (c_iflag (projr (convertOptions scenario_A))) IGNPAR
   \<and> c_cflag (projr (convertOptions scenario_A)) = CS8 OR CLOCAL OR CREAD
   \<and> c_ispeed (projr (convertOptions scenario_A)) = 9600
   \<and> c_ospeed (projr (convertOptions scenario_A)) = 9600"
proof -
  note h = scenario_A_accepted
  from convertOptions_fixed_flags [of scenario_A "projr (convertOptions scenario_A)"
      "''/dev/tty.usbserial''"] h
  show ?thesis by (auto simp: scenario_A_def)
qed

text \<open>
  Claim C10. For every configuration accepted by \<open>convertOptions\<close>, the output flags and
  the local flags of the produced record are zero, the record has \<open>NCCS = 20\<close> control
  characters, and each of them other than the two at the (distinct, in range) indices
  \<open>VMIN\<close> and \<open>VTIME\<close> is zero: the other 18 control characters.
\<close>

theorem convertOptions_frame:
  assumes "convertOptions options = Inr r"
  shows "c_oflag r = 0 \<and> c_lflag r = 0 \<and> length (c_cc r) = NCCS \<and> NCCS = 20
         \<and> unat VMIN < NCCS \<and> unat VTIME < NCCS \<and> unat VMIN \<noteq> unat VTIME
         \<and> (\<forall>i < NCCS. i \<noteq> unat VMIN \<and> i \<noteq> unat VTIME \<longrightarrow> c_cc r ! i = 0)
         \<and> length (filter (\<lambda>i. i \<noteq> unat VMIN \<and> i \<noteq> unat VTIME) [0..<NCCS]) = 18"
proof -
  note shape = convertOptions_Inr [OF assms]
  have flags: "c_oflag r = 0" "c_lflag r = 0"
    using shape by simp_all
  have len: "length (c_cc r) = NCCS"
    using shape by simp
  have idx: "NCCS = 20" "unat VMIN < NCCS" "unat VTIME < NCCS" "unat VMIN \<noteq> unat VTIME"
    by (simp_all add: NCCS_def VMIN_def VTIME_def)
  have others: "\<forall>i < NCCS. i \<noteq> unat VMIN \<and> i \<noteq> unat VTIME \<longrightarrow> c_cc r ! i = 0"
    using shape by (simp add: cc_lookup)
  have "length (filter (\<lambda>i. i \<noteq> 16 \<and> i \<noteq> 17) [0..<20]) = (18::nat)"
    by code_simp
  then have count:
    "length (filter (\<lambda>i. i \<noteq> unat VMIN \<and> i \<noteq> unat VTIME) [0..<NCCS]) = 18"
    by (simp add: NCCS_def VMIN_def VTIME_def)
  show ?thesis using flags len idx others count by blast
qed

theorem convertOptions_frame_witness:
  "convertOptions scenario_A = Inr (projr (convertOptions scenario_A))
   \<and> c_oflag (projr (convertOptions scenario_A)) = 0
   \<and> c_lflag (projr (convertOptions scenario_A)) = 0
   \<and> length (c_cc (projr (convertOptions scenario_A))) = 20
   \<and> (3::nat) < NCCS \<and> 3 \<noteq> unat VMIN \<and> 3 \<noteq> unat VTIME
   \<and> c_cc (projr (convertOptions scenario_A)) ! 3 = 0"
proof -
  note h = scenario_A_accepted
  have i: "(3::nat) < NCCS \<and> 3 \<noteq> unat VMIN \<and> 3 \<noteq> unat VTIME"
    by (simp add: NCCS_def VMIN_def VTIME_def)
  from convertOptions_frame [OF h] h i show ?thesis by auto
qed

text \<open>
  Claim C8. Let \<open>(r1, r2, errno)\<close> be the answer of the set-attributes control call.
  \<open>setTermios\<close> returns a \<open>SyscallError\<close> exactly when \<open>errno\<close> is nonzero, and then it
  is the one carrying that \<open>errno\<close>; if \<open>errno\<close> is zero and \<open>r1\<close> is nonzero it returns
  the error \<open>Unknown error from SYS_IOCTL.\<close>; otherwise it returns nil. In every case the
  only thing it has done is that one control call.
\<close>

theorem setTermios_outcome:
  assumes "os_Syscall os SYS_IOCTL (word_of_int fd) TIOCSETA (ArgTermios src) (fst s)
             = ((r1, r2, errno), w)"
  shows "(errno \<noteq> 0 \<longleftrightarrow> (\<exists>name n. fst (setTermios os fd src s) = Some (SyscallError name n)))
       \<and> (errno \<noteq> 0 \<longrightarrow>
            fst (setTermios os fd src s) = Some (SyscallError ''SYS_IOCTL'' (sint errno))
            \<and> sint errno \<noteq> 0)
       \<and> (errno = 0 \<and> r1 \<noteq> 0 \<longrightarrow>
            fst (setTermios os fd src s) = Some (NewError ''Unknown error from SYS_IOCTL.''))
       \<and> (errno = 0 \<and> r1 = 0 \<longrightarrow> fst (setTermios os fd src s) = None)
       \<and> snd (setTermios os fd src s) = (w, snd s @ [ioctl_call fd src])"
  unfolding setTermios_run [OF assms] by (simp add: signed_eq_0_iff)

theorem setTermios_outcome_witness:
  "fst (setTermios (test_double (Inr 3) (0, 0, 0) (0, 0, 13)) 3 zero_termios ((), []))
     = Some (SyscallError ''SYS_IOCTL'' 13)
   \<and> fst (setTermios (test_double (Inr 3) (0, 0, 0) (1, 0, 0)) 3 zero_termios ((), []))
     = Some (NewError ''Unknown error from SYS_IOCTL.'')
   \<and> fst (setTermios (test_double (Inr 3) (0, 0, 0) (0, 0, 0)) 3 zero_termios ((), [])) = None
   \<and> snd (setTermios (test_double (Inr 3) (0, 0, 0) (0, 0, 0)) 3 zero_termios ((), []))
     = ((), [ioctl_call 3 zero_termios])"
proof -
  have a: "os_Syscall (test_double (Inr 3) (0, 0, 0) (0, 0, 13)) SYS_IOCTL (word_of_int 3)
      TIOCSETA (ArgTermios zero_termios) (fst ((), [])) = ((0, 0, 13), ())"
    by (simp add: test_double_simps)
  have b: "os_Syscall (test_double (Inr 3) (0, 0, 0) (1, 0, 0)) SYS_IOCTL (word_of_int 3)
      TIOCSETA (ArgTermios zero_termios) (fst ((), [])) = ((1, 0, 0), ())"
    by (simp add: test_double_simps)
  have c: "os_Syscall (test_double (Inr 3) (0, 0, 0) (0, 0, 0)) SYS_IOCTL (word_of_int 3)
      TIOCSETA (ArgTermios zero_termios) (fst ((), [])) = ((0, 0, 0), ())"
    by (simp add: test_double_simps)
  show ?thesis
    using setTermios_outcome [OF a] setTermios_outcome [OF b] setTermios_outcome [OF c]
    by simp
qed

text \<open>
  Claim C9. Suppose the device open succeeded with descriptor \<open>fd\<close>, and let
  \<open>(r1, r2, errno)\<close> be the answer of the flag-control call. The call that follows the
  open in the log is \<open>fcntl(fd, F_SETFL, 0)\<close>. If \<open>errno\<close> is nonzero, \<open>openInternal\<close>
  stops there and returns the \<open>SyscallError\<close> of that \<open>errno\<close> and no handle; if
  \<open>errno\<close> is zero and \<open>r1\<close> is nonzero it stops there and returns the error
  \<open>Unknown error from SYS_FCNTL.\<close> and no handle; and only when both are zero does it
  go on to the translation and the attribute call, whose outcome is then its result.
\<close>

theorem openInternal_clears_nonblocking:
  assumes opened:
      "os_OpenFile os (PortName options) (O_RDWR OR O_NOCTTY OR O_NONBLOCK) perm_0600 w
         = (Inr fd, w1)"
    and answer:
      "os_Syscall os SYS_FCNTL (word_of_int fd) F_SETFL (ArgWord 0) w1 = ((r1, r2, errno), w2)"
  shows "(\<exists>rest. snd (snd (openInternal os options (w, log)))
                   = log @ open_call options # fcntl_call fd # rest)
       \<and> (errno \<noteq> 0 \<longrightarrow>
            openInternal os options (w, log) =
              (Inl (SyscallError ''SYS_IOCTL'' (sint errno)),
               (w2, log @ [open_call options, fcntl_call fd])))
       \<and> (errno = 0 \<and> r1 \<noteq> 0 \<longrightarrow>
            openInternal os options (w, log) =
              (Inl (NewError ''Unknown error from SYS_FCNTL.''),
               (w2, log @ [open_call options, fcntl_call fd])))
       \<and> (errno = 0 \<and> r1 = 0 \<longrightarrow>
            openInternal os options (w, log) =
              (case convertOptions options of
                 Inl err \<Rightarrow> (Inl err, (w2, log @ [open_call options, fcntl_call fd]))
               | Inr t \<Rightarrow>
                   (case setTermios os fd t (w2, log @ [open_call options, fcntl_call fd]) of
                      (Some e, s) \<Rightarrow> (Inl e, s)
                    | (None, s) \<Rightarrow> (Inr fd, s))))"
proof -
  note run = openInternal_opened [OF opened answer, of log]
  have "\<exists>rest. snd (snd (openInternal os options (w, log)))
                   = log @ open_call options # fcntl_call fd # rest"
  proof (cases "errno = 0 \<and> r1 = 0")
    case False
    then show ?thesis unfolding run by auto
  next
    case True
    show ?thesis
    proof (cases "convertOptions options")
      case (Inl err)
      with True show ?thesis unfolding run by simp
    next
      case (Inr t)
      have "snd (snd (setTermios os fd t (w2, log @ [open_call options, fcntl_call fd])))
              = log @ open_call options # fcntl_call fd # [ioctl_call fd t]"
        by (simp add: setTermios_log)
      with True Inr show ?thesis
        unfolding run by (auto split: prod.split option.split)
    qed
  qed
  then show ?thesis unfolding run by simp
qed

theorem openInternal_clears_nonblocking_witness:
  "openInternal (test_double (Inr 3) (0, 0, 9) (0, 0, 0)) scenario_A ((), [])
     = (Inl (SyscallError ''SYS_IOCTL'' 9), ((), [open_call scenario_A, fcntl_call 3]))
   \<and> openInternal (test_double (Inr 3) (1, 0, 0) (0, 0, 0)) scenario_A ((), [])
     = (Inl (NewError ''Unknown error from SYS_FCNTL.''),
        ((), [open_call scenario_A, fcntl_call 3]))
   \<and> openInternal (test_double (Inr 3) (0, 0, 0) (0, 0, 0)) scenario_B ((), [])
     = (Inl (NewError ''Invalid setting for BaudRate.''),
        ((), [open_call scenario_B, fcntl_call 3]))"
proof -
  have o: "os_OpenFile (test_double (Inr 3) f i) (PortName c)
      (O_RDWR OR O_NOCTTY OR O_NONBLOCK) perm_0600 () = (Inr 3, ())" for f i c
    by (simp add: test_double_simps)
  have f: "os_Syscall (test_double (Inr 3) f i) SYS_FCNTL (word_of_int 3) F_SETFL
      (ArgWord 0) () = ((fst f, fst (snd f), snd (snd f)), ())" for f i
    by (simp add: test_double_simps)
  have b: "convertOptions scenario_B = Inl (NewError ''Invalid setting for BaudRate.'')"
    by (rule convertOptions_bad_baud) (simp add: scenario_simps spec_baud_rates_def)
  show ?thesis
    using openInternal_clears_nonblocking [OF o f, of "(0, 0, 9)" "(0, 0, 0)" scenario_A "[]"]
      openInternal_clears_nonblocking [OF o f, of "(1, 0, 0)" "(0, 0, 0)" scenario_A "[]"]
      openInternal_clears_nonblocking [OF o f, of "(0, 0, 0)" "(0, 0, 0)" scenario_B "[]"]
      b
    by simp
qed

text \<open>
  Claim C1, as stated, at three runs in which the open succeeds with descriptor 3 and
  a later step fails: the flag-clear call reports errno 9 (the specification's
  open-sequence scenario); the translation rejects baud rate 9601; the attribute call
  reports errno 13. Each time the error is returned and the log of the calls made holds no
  close of the descriptor.
\<close>

theorem openInternal_closes_descriptor_counterexample:
  "os_OpenFile (test_double (Inr 3) (0, 0, 9) (0, 0, 0)) (PortName scenario_A)
       (O_RDWR OR O_NOCTTY OR O_NONBLOCK) perm_0600 () = (Inr 3, ())
   \<and> fst (openInternal (test_double (Inr 3) (0, 0, 9) (0, 0, 0)) scenario_A ((), []))
       = Inl (SyscallError ''SYS_IOCTL'' 9)
   \<and> Close_call 3 \<notin>
       set (snd (snd (openInternal (test_double (Inr 3) (0, 0, 9) (0, 0, 0)) scenario_A ((), []))))
   \<and> fst (openInternal (test_double (Inr 3) (0, 0, 0) (0, 0, 0)) scenario_B ((), []))
       = Inl (NewError ''Invalid setting for BaudRate.'')
   \<and> Close_call 3 \<notin>
       set (snd (snd (openInternal (test_double (Inr 3) (0, 0, 0) (0, 0, 0)) scenario_B ((), []))))
   \<and> fst (openInternal (test_double (Inr 3) (0, 0, 0) (0, 0, 13)) scenario_A ((), []))
       = Inl (SyscallError ''SYS_IOCTL'' 13)
   \<and> Close_call 3 \<notin>
       set (snd (snd (openInternal (test_double (Inr 3) (0, 0, 0) (0, 0, 13)) scenario_A ((), []))))"
proof -
  have o: "os_OpenFile (test_double (Inr 3) f i) (PortName c)
      (O_RDWR OR O_NOCTTY OR O_NONBLOCK) perm_0600 () = (Inr 3, ())" for f i c
    by (simp add: test_double_simps)
  have f: "os_Syscall (test_double (Inr 3) f i) SYS_FCNTL (word_of_int 3) F_SETFL
      (ArgWord 0) () = ((fst f, fst (snd f), snd (snd f)), ())" for f i
    by (simp add: test_double_simps)
  have b: "convertOptions scenario_B = Inl (NewError ''Invalid setting for BaudRate.'')"
    by (rule convertOptions_bad_baud) (simp add: scenario_simps spec_baud_rates_def)
  have i: "os_Syscall (test_double (Inr 3) (0, 0, 0) (0, 0, 13)) SYS_IOCTL (word_of_int 3)
      TIOCSETA (ArgTermios t) (fst (u, l)) = ((0, 0, 13), ())" for t u l
    by (simp add: test_double_simps)
  have 1: "openInternal (test_double (Inr 3) (0, 0, 9) (0, 0, 0)) scenario_A ((), [])
      = (Inl (SyscallError ''SYS_IOCTL'' 9), ((), [open_call scenario_A, fcntl_call 3]))"
    by (simp add: openInternal_opened [OF o f])
  have 2: "openInternal (test_double (Inr 3) (0, 0, 0) (0, 0, 0)) scenario_B ((), [])
      = (Inl (NewError ''Invalid setting for BaudRate.''),
         ((), [open_call scenario_B, fcntl_call 3]))"
    by (simp add: openInternal_opened [OF o f] b)
  have 3: "openInternal (test_double (Inr 3) (0, 0, 0) (0, 0, 13)) scenario_A ((), [])
      = (Inl (SyscallError ''SYS_IOCTL'' 13),
         ((), [open_call scenario_A, fcntl_call 3,
               ioctl_call 3 (projr (convertOptions scenario_A))]))"
  proof -
    obtain t where t: "convertOptions scenario_A = Inr t"
      using scenario_A_accepted ..
    show ?thesis
      by (simp add: openInternal_opened [OF o f] setTermios_run [OF i] t)
  qed
  show ?thesis
    unfolding 1 2 3 by (simp add: o call_distinct)
qed

text \<open>
  Claim C1, amended. For every configuration, if \<open>openInternal\<close> fails at any step after
  the device descriptor has been opened, it returns the error without closing the
  descriptor: the calls it has made are the open, the flag-control call and, when the
  translation produced a record, the attribute call on that record, and no close.
\<close>

theorem openInternal_failure_leaves_descriptor_open:
  assumes opened:
      "os_OpenFile os (PortName options) (O_RDWR OR O_NOCTTY OR O_NONBLOCK) perm_0600 w
         = (Inr fd, w1)"
    and failed: "fst (openInternal os options (w, log)) = Inl e"
  shows "\<exists>calls. snd (snd (openInternal os options (w, log))) = log @ calls
           \<and> (calls = [open_call options, fcntl_call fd]
                \<or> (\<exists>t. convertOptions options = Inr t
                       \<and> calls = [open_call options, fcntl_call fd, ioctl_call fd t]))
           \<and> (\<forall>d. Close_call d \<notin> set calls)"
proof -
  obtain r1 r2 errno w2 where answer:
    "os_Syscall os SYS_FCNTL (word_of_int fd) F_SETFL (ArgWord 0) w1 = ((r1, r2, errno), w2)"
    by (rule syscall_answer)
  note run = openInternal_opened [OF opened answer, of log]
  have "snd (snd (openInternal os options (w, log))) = log @ [open_call options, fcntl_call fd]
        \<or> (\<exists>t. convertOptions options = Inr t
              \<and> snd (snd (openInternal os options (w, log)))
                  = log @ [open_call options, fcntl_call fd, ioctl_call fd t])"
  proof (cases "convertOptions options")
    case (Inl err)
    then show ?thesis unfolding run by simp
  next
    case (Inr t)
    have "snd (snd (setTermios os fd t (w2, log @ [open_call options, fcntl_call fd])))
            = log @ [open_call options, fcntl_call fd, ioctl_call fd t]"
      by (simp add: setTermios_log)
    with Inr show ?thesis
      unfolding run by (auto split: prod.split option.split)
  qed
  then show ?thesis
    by (elim disjE exE conjE) (auto simp: call_distinct)
qed

theorem openInternal_failure_leaves_descriptor_open_witness:
  "os_OpenFile (test_double (Inr 3) (0, 0, 9) (0, 0, 0)) (PortName scenario_A)
       (O_RDWR OR O_NOCTTY OR O_NONBLOCK) perm_0600 () = (Inr 3, ())
   \<and> fst (openInternal (test_double (Inr 3) (0, 0, 9) (0, 0, 0)) scenario_A ((), []))
       = Inl (SyscallError ''SYS_IOCTL'' 9)
   \<and> (\<exists>calls. snd (snd (openInternal (test_double (Inr 3) (0, 0, 9) (0, 0, 0)) scenario_A ((), [])))
             = [] @ calls
           \<and> (calls = [open_call scenario_A, fcntl_call 3]
                \<or> (\<exists>t. convertOptions scenario_A = Inr t
                       \<and> calls = [open_call scenario_A, fcntl_call 3, ioctl_call 3 t]))
           \<and> (\<forall>d. Close_call d \<notin> set calls))"
proof -
  have o: "os_OpenFile (test_double (Inr 3) (0, 0, 9) (0, 0, 0)) (PortName scenario_A)
      (O_RDWR OR O_NOCTTY OR O_NONBLOCK) perm_0600 () = (Inr 3, ())"
    by (simp add: test_double_simps)
  have f: "os_Syscall (test_double (Inr 3) (0, 0, 9) (0, 0, 0)) SYS_FCNTL (word_of_int 3) F_SETFL
      (ArgWord 0) () = ((0, 0, 9), ())"
    by (simp add: test_double_simps)
  have e: "fst (openInternal (test_double (Inr 3) (0, 0, 9) (0, 0, 0)) scenario_A ((), []))
      = Inl (SyscallError ''SYS_IOCTL'' 9)"
    by (simp add: openInternal_opened [OF o f])
  show ?thesis
    using o e openInternal_failure_leaves_descriptor_open [OF o e] by blast
qed

text \<open>
  Claim C2, as stated, at scenario B (baud rate 9601): when the open succeeds with
  descriptor 3 and the flag-control call succeeds, the rejection comes after both calls
  have been made; and when the open fails, the result is the error of the open, not the
  rejection of the configuration.
\<close>

theorem invalid_configuration_no_os_call_counterexample:
  "BaudRate scenario_B \<notin> spec_baud_rates
   \<and> openInternal (test_double (Inr 3) (0, 0, 0) (0, 0, 0)) scenario_B ((), [])
       = (Inl (NewError ''Invalid setting for BaudRate.''),
          ((), [open_call scenario_B, fcntl_call 3]))
   \<and> openInternal
         (test_double (Inl (PathError ''open'' ''/dev/tty.usbserial'' (NewError ''permission denied'')))
            (0, 0, 0) (0, 0, 0)) scenario_B ((), [])
       = (Inl (PathError ''open'' ''/dev/tty.usbserial'' (NewError ''permission denied'')),
          ((), [open_call scenario_B]))"
proof -
  have o: "os_OpenFile (test_double opened f i) (PortName c)
      (O_RDWR OR O_NOCTTY OR O_NONBLOCK) perm_0600 () = (opened, ())" for opened f i c
    by (simp add: test_double_simps)
  have f: "os_Syscall (test_double (Inr 3) (0, 0, 0) (0, 0, 0)) SYS_FCNTL (word_of_int 3) F_SETFL
      (ArgWord 0) () = ((0, 0, 0), ())"
    by (simp add: test_double_simps)
  have b: "convertOptions scenario_B = Inl (NewError ''Invalid setting for BaudRate.'')"
    by (rule convertOptions_bad_baud) (simp add: scenario_simps spec_baud_rates_def)
  show ?thesis
    by (simp add: openInternal_opened [OF o f] openInternal_not_opened [OF o] b
        scenario_simps spec_baud_rates_def)
qed

text \<open>
  Claim C2, amended. For every configuration whose baud rate or data bits are outside
  their enumerated sets, \<open>openInternal\<close> returns an error and no handle and never makes
  the attribute-set call, but the rejection comes after the other two calls. The device
  open is made first; when it fails, its error is the result and nothing else is called.
  When it succeeds with descriptor \<open>fd\<close>, the flag-control call on \<open>fd\<close> is made next and
  is the last call; when that call fails (nonzero \<open>errno\<close>, or else nonzero \<open>r1\<close>), its
  error is the result; and only when both calls have succeeded is the result the
  rejection of the configuration by \<open>convertOptions\<close>.
\<close>

theorem invalid_configuration_never_applied:
  assumes invalid: "BaudRate options \<notin> spec_baud_rates \<or> DataBits options \<notin> spec_data_bits"
  shows "isl (fst (openInternal os options (w, log)))
       \<and> (\<exists>calls. snd (snd (openInternal os options (w, log))) = log @ calls
             \<and> (\<forall>a1 a2 a3. Syscall_call SYS_IOCTL a1 a2 a3 \<notin> set calls))
       \<and> (\<exists>e. convertOptions options = Inl e
             \<and> (e = NewError ''Invalid setting for BaudRate.''
                  \<or> e = NewError ''Invalid setting for DataBits.''))
       \<and> (\<forall>err w1.
             os_OpenFile os (PortName options) (O_RDWR OR O_NOCTTY OR O_NONBLOCK) perm_0600 w
               = (Inl err, w1)
             \<longrightarrow> openInternal os options (w, log) = (Inl err, (w1, log @ [open_call options])))
       \<and> (\<forall>fd w1 r1 r2 errno w2.
             os_OpenFile os (PortName options) (O_RDWR OR O_NOCTTY OR O_NONBLOCK) perm_0600 w
               = (Inr fd, w1)
             \<and> os_Syscall os SYS_FCNTL (word_of_int fd) F_SETFL (ArgWord 0) w1
                 = ((r1, r2, errno), w2)
             \<longrightarrow> openInternal os options (w, log) =
                   (if errno \<noteq> 0 then Inl (SyscallError ''SYS_IOCTL'' (sint errno))
                    else if r1 \<noteq> 0 then Inl (NewError ''Unknown error from SYS_FCNTL.'')
                    else Inl (projl (convertOptions options)),
                    (w2, log @ [open_call options, fcntl_call fd])))"
proof -
  obtain e where e: "convertOptions options = Inl e"
    and msg: "e = NewError ''Invalid setting for BaudRate.''
                \<or> e = NewError ''Invalid setting for DataBits.''"
    using invalid convertOptions_bad_baud [of options] convertOptions_bad_bits [of options]
    by blast
  have failed_open: "openInternal os options (w, log) = (Inl err, (w1, log @ [open_call options]))"
    if "os_OpenFile os (PortName options) (O_RDWR OR O_NOCTTY OR O_NONBLOCK) perm_0600 w
          = (Inl err, w1)"
    for err w1
    using that by (rule openInternal_not_opened)
  have opened: "openInternal os options (w, log) =
                   (if errno \<noteq> 0 then Inl (SyscallError ''SYS_IOCTL'' (sint errno))
                    else if r1 \<noteq> 0 then Inl (NewError ''Unknown error from SYS_FCNTL.'')
                    else Inl (projl (convertOptions options)),
                    (w2, log @ [open_call options, fcntl_call fd]))"
    if "os_OpenFile os (PortName options) (O_RDWR OR O_NOCTTY OR O_NONBLOCK) perm_0600 w
          = (Inr fd, w1)
        \<and> os_Syscall os SYS_FCNTL (word_of_int fd) F_SETFL (ArgWord 0) w1
            = ((r1, r2, errno), w2)"
    for fd w1 r1 r2 errno w2
  proof -
    from that have o: "os_OpenFile os (PortName options) (O_RDWR OR O_NOCTTY OR O_NONBLOCK)
        perm_0600 w = (Inr fd, w1)"
      and f: "os_Syscall os SYS_FCNTL (word_of_int fd) F_SETFL (ArgWord 0) w1
        = ((r1, r2, errno), w2)"
      by simp_all
    show ?thesis
      unfolding openInternal_opened [OF o f] by (simp add: e)
  qed
  obtain answer w1 where o:
    "os_OpenFile os (PortName options) (O_RDWR OR O_NOCTTY OR O_NONBLOCK) perm_0600 w
       = (answer, w1)"
    by (metis surj_pair)
  have overall: "isl (fst (openInternal os options (w, log)))
       \<and> (\<exists>calls. snd (snd (openInternal os options (w, log))) = log @ calls
             \<and> (\<forall>a1 a2 a3. Syscall_call SYS_IOCTL a1 a2 a3 \<notin> set calls))"
  proof (cases answer)
    case (Inl err)
    show ?thesis
      unfolding failed_open [OF o [unfolded Inl]] by (simp add: call_distinct)
  next
    case (Inr fd)
    obtain r1 r2 errno w2 where f:
      "os_Syscall os SYS_FCNTL (word_of_int fd) F_SETFL (ArgWord 0) w1 = ((r1, r2, errno), w2)"
      by (rule syscall_answer)
    from o [unfolded Inr] f have "os_OpenFile os (PortName options)
          (O_RDWR OR O_NOCTTY OR O_NONBLOCK) perm_0600 w = (Inr fd, w1)
        \<and> os_Syscall os SYS_FCNTL (word_of_int fd) F_SETFL (ArgWord 0) w1
            = ((r1, r2, errno), w2)"
      by simp
    from opened [OF this] show ?thesis
      by (simp add: call_distinct)
  qed
  from overall e msg failed_open opened show ?thesis by blast
qed

theorem invalid_configuration_never_applied_witness:
  "BaudRate scenario_B \<notin> spec_baud_rates
   \<and> openInternal
         (test_double (Inl (PathError ''open'' ''/dev/tty.usbserial'' (NewError ''permission denied'')))
            (0, 0, 0) (0, 0, 0)) scenario_B ((), [])
       = (Inl (PathError ''open'' ''/dev/tty.usbserial'' (NewError ''permission denied'')),
          ((), [open_call scenario_B]))
   \<and> openInternal (test_double (Inr 3) (0, 0, 9) (0, 0, 0)) scenario_B ((), [])
       = (Inl (SyscallError ''SYS_IOCTL'' 9), ((), [open_call scenario_B, fcntl_call 3]))
   \<and> openInternal (test_double (Inr 3) (1, 0, 0) (0, 0, 0)) scenario_B ((), [])
       = (Inl (NewError ''Unknown error from SYS_FCNTL.''),
          ((), [open_call scenario_B, fcntl_call 3]))
   \<and> openInternal (test_double (Inr 3) (0, 0, 0) (0, 0, 0)) scenario_B ((), [])
       = (Inl (NewError ''Invalid setting for BaudRate.''),
          ((), [open_call scenario_B, fcntl_call 3]))
   \<and> isl (fst (openInternal (test_double (Inr 3) (0, 0, 0) (0, 0, 0)) scenario_B ((), [])))"
proof -
  have nb: "BaudRate scenario_B \<notin> spec_baud_rates"
    by (simp add: scenario_simps spec_baud_rates_def)
  then have v: "BaudRate scenario_B \<notin> spec_baud_rates \<or> DataBits scenario_B \<notin> spec_data_bits"
    by simp
  have o: "os_OpenFile (test_double answer f i) (PortName scenario_B)
      (O_RDWR OR O_NOCTTY OR O_NONBLOCK) perm_0600 () = (answer, ())" for answer f i
    by (simp add: test_double_simps)
  have f: "os_Syscall (test_double (Inr 3) (r1, r2, errno) i) SYS_FCNTL (word_of_int 3) F_SETFL
      (ArgWord 0) () = ((r1, r2, errno), ())" for r1 r2 errno i
    by (simp add: test_double_simps)
  have b: "projl (convertOptions scenario_B) = NewError ''Invalid setting for BaudRate.''"
    by (simp add: convertOptions_bad_baud [OF nb])
  note inst = invalid_configuration_never_applied [OF v, where w = "()" and log = "[]"]
  have 1: "openInternal
         (test_double (Inl (PathError ''open'' ''/dev/tty.usbserial'' (NewError ''permission denied'')))
            (0, 0, 0) (0, 0, 0)) scenario_B ((), [])
       = (Inl (PathError ''open'' ''/dev/tty.usbserial'' (NewError ''permission denied'')),
          ((), [open_call scenario_B]))"
    using inst [of "test_double (Inl (PathError ''open'' ''/dev/tty.usbserial''
        (NewError ''permission denied''))) (0, 0, 0) (0, 0, 0)"] o
    by simp
  have 2: "openInternal (test_double (Inr 3) (0, 0, 9) (0, 0, 0)) scenario_B ((), [])
       = (Inl (SyscallError ''SYS_IOCTL'' 9), ((), [open_call scenario_B, fcntl_call 3]))"
    using inst [of "test_double (Inr 3) (0, 0, 9) (0, 0, 0)"] o f [of 0 0 9 "(0, 0, 0)"]
    by simp
  have 3: "openInternal (test_double (Inr 3) (1, 0, 0) (0, 0, 0)) scenario_B ((), [])
       = (Inl (NewError ''Unknown error from SYS_FCNTL.''),
          ((), [open_call scenario_B, fcntl_call 3]))"
    using inst [of "test_double (Inr 3) (1, 0, 0) (0, 0, 0)"] o f [of 1 0 0 "(0, 0, 0)"]
    by simp
  have 4: "openInternal (test_double (Inr 3) (0, 0, 0) (0, 0, 0)) scenario_B ((), [])
       = (Inl (NewError ''Invalid setting for BaudRate.''),
          ((), [open_call scenario_B, fcntl_call 3]))"
    using inst [of "test_double (Inr 3) (0, 0, 0) (0, 0, 0)"] o f [of 0 0 0 "(0, 0, 0)"] b
    by simp
  from nb 1 2 3 4 show ?thesis by simp
qed

end
